theory Spec2Isabelle
  imports Main
begin

section \<open>Data model\<close>

text \<open>
  A shallow embedding of \<^verbatim>\<open>otel.go\<close> (package \<^verbatim>\<open>otel\<close> of goflash/otel): the
  OpenTelemetry middleware \<^verbatim>\<open>OTelWithConfig\<close> and the helpers \<^verbatim>\<open>Span\<close>,
  \<^verbatim>\<open>AddAttributes\<close> and \<^verbatim>\<open>AddEvent\<close>.

  Values of the imported packages are modelled by what the middleware does with them:
  \<^item> \<^verbatim>\<open>codes.Code\<close> is a datatype, \<^verbatim>\<open>error\<close> is \<open>go_error option\<close> (\<open>None\<close> is \<^verbatim>\<open>nil\<close>),
    a panic is a value \<open>panic\<close> carried in the left summand of a result;
  \<^item> \<^verbatim>\<open>attribute.KeyValue\<close> is a pair of a key and a typed value;
  \<^item> \<^verbatim>\<open>int\<close> status codes are \<open>int\<close>: they are only compared, never computed with.
\<close>

datatype Code = codes_Unset | codes_Error | codes_Ok

datatype go_error = GoError string

datatype panic = Panic string

text \<open>
  \<^verbatim>\<open>attribute.Value\<close>. The duration attribute is the \<^verbatim>\<open>float64\<close> quotient
  \<^verbatim>\<open>float64(elapsed)/float64(time.Millisecond)\<close>; the quotient is kept symbolic
  (\<open>Float64Quotient elapsed 1000000\<close>), no rounding is modelled.
\<close>

datatype Value = StringValue string | Int64Value int | Float64Quotient int int

type_synonym KeyValue = "string \<times> Value"

datatype SpanKind =
    SpanKindUnspecified | SpanKindInternal | SpanKindServer | SpanKindClient
  | SpanKindProducer | SpanKindConsumer

text \<open>
  \<^verbatim>\<open>trace.Span\<close> handles (package \<^verbatim>\<open>go.opentelemetry.io/otel/trace\<close>, which is not part
  of the repository). \<open>NoopSpan\<close> is the non-recording span of the API package; a
  \<open>RecordingSpan i\<close> refers to the record \<open>i\<close> kept by the tracer.
\<close>

datatype span = NoopSpan | RecordingSpan nat

text \<open>
  \<^verbatim>\<open>context.Context\<close>: an immutable value. Only the span stored under the API's span key
  is interpreted; everything else a context carries (deadlines, baggage, remote parents
  put there by a propagator) is the opaque list \<open>ctx_values\<close>.
\<close>

record Context =
  ctx_span :: "span option"
  ctx_values :: "(string \<times> string) list"

type_synonym header = "(string \<times> string list) list"

text \<open>The fields of \<^verbatim>\<open>*http.Request\<close> the middleware reads or replaces.\<close>

record request =
  RemoteAddr :: string
  Header :: header
  req_ctx :: Context

text \<open>The calls a span has received, in order: what a recording span keeps.\<close>

datatype span_op =
    OpSetAttributes "KeyValue list"
  | OpSetStatus Code string
  | OpRecordError go_error
  | OpAddEvent string "KeyValue list"
  | OpEnd

record span_rec =
  rec_tracer :: string
  rec_name :: string
  rec_kind :: SpanKind
  rec_parent :: Context
  rec_ops :: "span_op list"

text \<open>
  The state a request runs in: what \<^verbatim>\<open>flash.Ctx\<close> answers (\<^verbatim>\<open>Method()\<close>, \<^verbatim>\<open>Path()\<close>,
  \<^verbatim>\<open>Route()\<close>, \<^verbatim>\<open>StatusCode()\<close>, \<^verbatim>\<open>Request()\<close>), the store of request objects
  (\<^verbatim>\<open>Request()\<close> is a pointer into it, so that a handler can change the object the middleware
  still holds), the spans of the tracers, and the monotonic clock in nanoseconds.
\<close>

record world =
  Method :: string
  Path :: string
  Route :: string
  StatusCode :: int
  Request :: nat
  requests :: "nat \<Rightarrow> request"
  next_request :: nat
  spans :: "nat \<Rightarrow> span_rec"
  next_span :: nat
  clock :: int

text \<open>
  A Go function that gets the \<^verbatim>\<open>flash.Ctx\<close> may change the state and may panic:
  it returns the panic or its value, and the state it leaves.
\<close>

type_synonym 'a effect = "world \<Rightarrow> (panic + 'a) \<times> world"

text \<open>\<^verbatim>\<open>flash.Handler\<close> is \<^verbatim>\<open>func(flash.Ctx) error\<close>.\<close>

type_synonym Handler = "go_error option effect"

text \<open>
  \<^verbatim>\<open>propagation.TextMapPropagator\<close>, by its \<^verbatim>\<open>Extract\<close>; \<^verbatim>\<open>trace.Tracer\<close> is either the
  API's no-op tracer or a recording tracer with its instrumentation name.
\<close>

type_synonym TextMapPropagator = "Context \<Rightarrow> header \<Rightarrow> Context"

datatype Tracer = NoopTracer | RecordingTracer string

record OTelConfig =
  Tracer :: "Tracer option"
  Propagator :: "TextMapPropagator option"
  FilterFunc :: "bool effect option"
  SpanNameFunc :: "string effect option"
  AttributesFunc :: "KeyValue list effect option"
  StatusFunc :: "(int \<Rightarrow> go_error option \<Rightarrow> panic + (Code \<times> string)) option"
  RecordDuration :: bool
  ServiceName :: string
  ExtraAttributes :: "KeyValue list"

text \<open>
  What the middleware takes from outside the repository: \<^verbatim>\<open>http.StatusText\<close>, the global
  tracer provider (\<^verbatim>\<open>otel.Tracer(name)\<close>) and the global propagator
  (\<^verbatim>\<open>otel.GetTextMapPropagator()\<close>). They are parameters of the model.
\<close>

record globals =
  http_StatusText :: "int \<Rightarrow> string"
  otel_Tracer :: "string \<Rightarrow> Tracer"
  otel_GetTextMapPropagator :: TextMapPropagator

section \<open>The tracing API the middleware calls\<close>

text \<open>
  Modelled from the spec: \<^verbatim>\<open>trace.SpanFromContext\<close> belongs to the tracing API, not to the
  repository. It returns the active span recorded in the context and, if no tracing was
  established, a non-recording no-op span handle (spec 4.5; the comment on \<^verbatim>\<open>Span\<close> in
  \<^verbatim>\<open>otel.go\<close> says the same).
\<close>

definition SpanFromContext :: "Context \<Rightarrow> span" where
  "SpanFromContext ctx = (case ctx_span ctx of Some s \<Rightarrow> s | None \<Rightarrow> NoopSpan)"

text \<open>
  Modelled from the spec: the methods of \<^verbatim>\<open>trace.Span\<close> belong to the tracing API. On the
  no-op span every operation is legal and has no effect (spec 4.5); a recording span
  appends the call to its record. \<^verbatim>\<open>IsRecording\<close> is false on the no-op span, and true on
  a recording span until it is ended.
\<close>

fun span_call :: "span \<Rightarrow> span_op \<Rightarrow> world \<Rightarrow> world" where
  "span_call NoopSpan op w = w"
| "span_call (RecordingSpan i) op w =
     w\<lparr>spans := (spans w)(i := (spans w i)\<lparr>rec_ops := rec_ops (spans w i) @ [op]\<rparr>)\<rparr>"

fun IsRecording :: "span \<Rightarrow> world \<Rightarrow> bool" where
  "IsRecording NoopSpan w = False"
| "IsRecording (RecordingSpan i) w = (OpEnd \<notin> set (rec_ops (spans w i)))"

text \<open>
  Modelled from the spec: the tracer capability (spec 6),
  \<^verbatim>\<open>tracer.Start(ctx, name, trace.WithSpanKind(kind))\<close>, gives the new span and the child
  context that carries it. The no-op tracer gives the no-op span; a recording tracer opens
  a new record.
\<close>

fun tracer_Start ::
  "Tracer \<Rightarrow> Context \<Rightarrow> string \<Rightarrow> SpanKind \<Rightarrow> world \<Rightarrow> (Context \<times> span) \<times> world" where
  "tracer_Start NoopTracer ctx name kind w = ((ctx\<lparr>ctx_span := Some NoopSpan\<rparr>, NoopSpan), w)"
| "tracer_Start (RecordingTracer lib) ctx name kind w =
     (let i = next_span w
      in ((ctx\<lparr>ctx_span := Some (RecordingSpan i)\<rparr>, RecordingSpan i),
          w\<lparr>spans := (spans w)(i := \<lparr>rec_tracer = lib, rec_name = name, rec_kind = kind,
                                     rec_parent = ctx, rec_ops = []\<rparr>),
            next_span := Suc i\<rparr>))"

text \<open>
  \<^verbatim>\<open>r.WithContext(ctx)\<close>: a new request object, a copy of \<open>r\<close> with the context replaced;
  \<^verbatim>\<open>c.SetRequest(r)\<close>.
\<close>

definition WithContext :: "nat \<Rightarrow> Context \<Rightarrow> world \<Rightarrow> nat \<times> world" where
  "WithContext r ctx w =
     (let r2 = next_request w
      in (r2, w\<lparr>requests := (requests w)(r2 := (requests w r)\<lparr>req_ctx := ctx\<rparr>),
               next_request := Suc r2\<rparr>))"

definition SetRequest :: "nat \<Rightarrow> world \<Rightarrow> world" where
  "SetRequest r w = w\<lparr>Request := r\<rparr>"

text \<open>
  \<^verbatim>\<open>time.Since(start)\<close> on monotonic readings: the difference, saturated to the range of
  \<^verbatim>\<open>time.Duration\<close> (\<^verbatim>\<open>int64\<close>).
\<close>

definition time_Since :: "int \<Rightarrow> world \<Rightarrow> int" where
  "time_Since start w =
     (let d = clock w - start
      in if d > 2 ^ 63 - 1 then 2 ^ 63 - 1 else if d < - (2 ^ 63) then - (2 ^ 63) else d)"

section \<open>The middleware\<close>

text \<open>\<^verbatim>\<open>defaultSpanName\<close>: \<^verbatim>\<open>METHOD PATH\<close>, replaced by \<^verbatim>\<open>METHOD ROUTE\<close> when a route is set.\<close>

definition defaultSpanName :: "world \<Rightarrow> string" where
  "defaultSpanName c =
     (let name = Method c @ '' '' @ Path c
      in if Route c \<noteq> '''' then Method c @ '' '' @ Route c else name)"

text \<open>\<^verbatim>\<open>defaultStatus\<close>; \<open>T\<close> is \<^verbatim>\<open>http.StatusText\<close>.\<close>

definition defaultStatus :: "(int \<Rightarrow> string) \<Rightarrow> int \<Rightarrow> go_error option \<Rightarrow> Code \<times> string" where
  "defaultStatus T status err =
     (if err \<noteq> None \<or> status \<ge> 500 then (codes_Error, T status) else (codes_Ok, ''''))"

text \<open>
  The calls the middleware itself makes on its collaborators (propagator, tracer, span,
  inner handler), in the order it makes them. A run of the middleware returns them beside
  its outcome and the state it leaves: what the wrapped handler or a callback does to a
  span is in the state, not in this list.
\<close>

datatype action =
    CallExtract Context header
  | CallStart string SpanKind span
  | CallNext
  | CallSetAttributes span "KeyValue list"
  | CallSetStatus span Code string
  | CallRecordError span go_error
  | CallEnd span

type_synonym 'a run = "(panic + 'a) \<times> world \<times> action list"

definition outcome :: "'a run \<Rightarrow> panic + 'a" where
  "outcome res = fst res"

definition final :: "'a run \<Rightarrow> world" where
  "final res = fst (snd res)"

definition actions :: "'a run \<Rightarrow> action list" where
  "actions res = snd (snd res)"

definition after_calls :: "action list \<Rightarrow> 'a run \<Rightarrow> 'a run" where
  "after_calls pre res = (case res of (out, w, acts) \<Rightarrow> (out, w, pre @ acts))"

text \<open>
  \<^verbatim>\<open>defer span.End()\<close>: the body runs, then \<^verbatim>\<open>End\<close> is called, whether the body returned
  or panicked; the outcome of the body stays.
\<close>

definition defer_End :: "span \<Rightarrow> 'a run \<Rightarrow> 'a run" where
  "defer_End sp res =
     (case res of (out, w, acts) \<Rightarrow> (out, span_call sp OpEnd w, acts @ [CallEnd sp]))"

text \<open>Lines 50 to 57: the tracer and the propagator, the global ones when not configured.\<close>

definition the_tracer :: "globals \<Rightarrow> OTelConfig \<Rightarrow> Tracer" where
  "the_tracer G cfg = (case Tracer cfg of None \<Rightarrow> otel_Tracer G ''GoFlash'' | Some t \<Rightarrow> t)"

definition the_propagator :: "globals \<Rightarrow> OTelConfig \<Rightarrow> TextMapPropagator" where
  "the_propagator G cfg =
     (case Propagator cfg of None \<Rightarrow> otel_GetTextMapPropagator G | Some p \<Rightarrow> p)"

text \<open>Line 77: \<^verbatim>\<open>cfg.FilterFunc != nil && cfg.FilterFunc(c)\<close>.\<close>

definition call_FilterFunc :: "OTelConfig \<Rightarrow> bool effect" where
  "call_FilterFunc cfg c = (case FilterFunc cfg of None \<Rightarrow> (Inr False, c) | Some f \<Rightarrow> f c)"

text \<open>
  Lines 84 to 89: the default name first, then the configured function, whose non-empty
  value replaces it.
\<close>

definition spanName :: "OTelConfig \<Rightarrow> string effect" where
  "spanName cfg c =
     (let name = defaultSpanName c
      in case SpanNameFunc cfg of
           None \<Rightarrow> (Inr name, c)
         | Some f \<Rightarrow>
             (case f c of
                (Inl p, c') \<Rightarrow> (Inl p, c')
              | (Inr n, c') \<Rightarrow> (Inr (if n \<noteq> '''' then n else name), c')))"

text \<open>
  Lines 92 and 93: extract the remote context from the request \<open>r\<close>, start the server
  span. The result is the context with the span, the span, and the state.
\<close>

definition start_span ::
  "globals \<Rightarrow> OTelConfig \<Rightarrow> nat \<Rightarrow> string \<Rightarrow> world \<Rightarrow> Context \<times> span \<times> world" where
  "start_span G cfg r name c =
     (let reqCtx = the_propagator G cfg (req_ctx (requests c r)) (Header (requests c r))
      in case tracer_Start (the_tracer G cfg) reqCtx name SpanKindServer c of
           ((reqCtx', sp), c') \<Rightarrow> (reqCtx', sp, c'))"

text \<open>Lines 97 and 98: the request with the new context, installed in the \<^verbatim>\<open>Ctx\<close>.\<close>

definition install :: "nat \<Rightarrow> Context \<Rightarrow> world \<Rightarrow> nat \<times> world" where
  "install r reqCtx c = (case WithContext r reqCtx c of (r', c') \<Rightarrow> (r', SetRequest r' c'))"

text \<open>Lines 121 to 123: the attributes of \<^verbatim>\<open>cfg.AttributesFunc\<close>, none when it is nil.\<close>

definition call_AttributesFunc :: "OTelConfig \<Rightarrow> KeyValue list effect" where
  "call_AttributesFunc cfg c =
     (case AttributesFunc cfg of None \<Rightarrow> (Inr [], c) | Some f \<Rightarrow> f c)"

text \<open>Lines 134 to 137: the default status, replaced by that of \<^verbatim>\<open>cfg.StatusFunc\<close>.\<close>

definition spanStatus ::
  "globals \<Rightarrow> OTelConfig \<Rightarrow> int \<Rightarrow> go_error option \<Rightarrow> panic + (Code \<times> string)" where
  "spanStatus G cfg status err =
     (let code_desc = defaultStatus (http_StatusText G) status err
      in case StatusFunc cfg of None \<Rightarrow> Inr code_desc | Some f \<Rightarrow> f status err)"

text \<open>Lines 104 to 107.\<close>

definition effective_status :: "world \<Rightarrow> int" where
  "effective_status c = (let status = StatusCode c in if status = 0 then 200 else status)"

text \<open>
  Lines 104 to 143, after the handler has returned \<open>err\<close>: \<open>sp\<close> is the span, \<open>r\<close> the
  request the middleware installed, \<open>elapsed\<close> the duration.
\<close>

definition finalize ::
  "globals \<Rightarrow> OTelConfig \<Rightarrow> span \<Rightarrow> nat \<Rightarrow> int \<Rightarrow> go_error option \<Rightarrow> world
     \<Rightarrow> go_error option run" where
  "finalize G cfg sp r elapsed err c =
     (let status = effective_status c;
          attrs = [(''http.method'', StringValue (Method c)),
                   (''http.target'', StringValue (Path c)),
                   (''net.peer.addr'', StringValue (RemoteAddr (requests c r)))];
          attrs = (if Route c \<noteq> '''' then attrs @ [(''http.route'', StringValue (Route c))]
                   else attrs);
          attrs = (if ServiceName cfg \<noteq> ''''
                   then attrs @ [(''service.name'', StringValue (ServiceName cfg))]
                   else attrs)
      in case call_AttributesFunc cfg c of
           (Inl p, c1) \<Rightarrow> (Inl p, c1, [])
         | (Inr added, c1) \<Rightarrow>
             (let attrs = attrs @ added;
                  attrs = (if length (ExtraAttributes cfg) > 0 then attrs @ ExtraAttributes cfg
                           else attrs);
                  attrs = attrs @ [(''http.status_code'', Int64Value status)];
                  attrs = (if RecordDuration cfg
                           then attrs @ [(''http.server.duration_ms'',
                                          Float64Quotient elapsed 1000000)]
                           else attrs);
                  c2 = span_call sp (OpSetAttributes attrs) c1
              in case spanStatus G cfg status err of
                   Inl p \<Rightarrow> (Inl p, c2, [CallSetAttributes sp attrs])
                 | Inr (code, desc) \<Rightarrow>
                     (let c3 = span_call sp (OpSetStatus code desc) c2
                      in case err of
                           None \<Rightarrow>
                             (Inr err, c3,
                              [CallSetAttributes sp attrs, CallSetStatus sp code desc])
                         | Some e \<Rightarrow>
                             (Inr err, span_call sp (OpRecordError e) c3,
                              [CallSetAttributes sp attrs, CallSetStatus sp code desc,
                               CallRecordError sp e]))))"

text \<open>Lines 97 to 143: what runs under the deferred \<^verbatim>\<open>End\<close>.\<close>

definition traced_body ::
  "globals \<Rightarrow> OTelConfig \<Rightarrow> Handler \<Rightarrow> span \<Rightarrow> nat \<Rightarrow> Context \<Rightarrow> world
     \<Rightarrow> go_error option run" where
  "traced_body G cfg next sp r reqCtx c =
     (case install r reqCtx c of
        (r', c') \<Rightarrow>
          (let start = clock c'
           in case next c' of
                (Inl p, c'') \<Rightarrow> (Inl p, c'', [CallNext])
              | (Inr err, c'') \<Rightarrow>
                  after_calls [CallNext]
                    (finalize G cfg sp r' (time_Since start c'') err c'')))"

text \<open>
  The handler \<^verbatim>\<open>OTelWithConfig(cfg)(next)\<close> on one request, lines 75 to 144, with the
  calls it makes.
\<close>

definition OTelWithConfig_run ::
  "globals \<Rightarrow> OTelConfig \<Rightarrow> Handler \<Rightarrow> world \<Rightarrow> go_error option run" where
  "OTelWithConfig_run G cfg next c =
     (case call_FilterFunc cfg c of
        (Inl p, c0) \<Rightarrow> (Inl p, c0, [])
      | (Inr skip, c0) \<Rightarrow>
          if skip then (case next c0 of (res, c') \<Rightarrow> (res, c', [CallNext]))
          else
            (let r = Request c0
             in case spanName cfg c0 of
                  (Inl p, c1) \<Rightarrow> (Inl p, c1, [])
                | (Inr name, c1) \<Rightarrow>
                    (case start_span G cfg r name c1 of
                       (reqCtx, sp, c2) \<Rightarrow>
                         after_calls
                           [CallExtract (req_ctx (requests c1 r)) (Header (requests c1 r)),
                            CallStart name SpanKindServer sp]
                           (defer_End sp (traced_body G cfg next sp r reqCtx c2)))))"

text \<open>\<^verbatim>\<open>OTelWithConfig\<close> as a \<^verbatim>\<open>flash.Middleware\<close>: from a handler to a handler.\<close>

definition OTelWithConfig :: "globals \<Rightarrow> OTelConfig \<Rightarrow> Handler \<Rightarrow> Handler" where
  "OTelWithConfig G cfg next c =
     (outcome (OTelWithConfig_run G cfg next c), final (OTelWithConfig_run G cfg next c))"

text \<open>\<^verbatim>\<open>OTel(serviceName, extraAttrs...)\<close>.\<close>

definition OTel :: "globals \<Rightarrow> string \<Rightarrow> KeyValue list \<Rightarrow> Handler \<Rightarrow> Handler" where
  "OTel G serviceName extraAttrs =
     OTelWithConfig G
       \<lparr>Tracer = None, Propagator = None, FilterFunc = None, SpanNameFunc = None,
        AttributesFunc = None, StatusFunc = None, RecordDuration = False,
        ServiceName = serviceName, ExtraAttributes = extraAttrs\<rparr>"

section \<open>The helpers for handlers\<close>

text \<open>\<^verbatim>\<open>Span(c)\<close> is \<^verbatim>\<open>trace.SpanFromContext(c.Request().Context())\<close>.\<close>

definition Span :: "world \<Rightarrow> span" where
  "Span c = SpanFromContext (req_ctx (requests c (Request c)))"

definition AddAttributes :: "KeyValue list \<Rightarrow> world \<Rightarrow> world" where
  "AddAttributes attrs c = span_call (Span c) (OpSetAttributes attrs) c"

definition AddEvent :: "string \<Rightarrow> KeyValue list \<Rightarrow> world \<Rightarrow> world" where
  "AddEvent name attrs c = span_call (Span c) (OpAddEvent name attrs) c"

section \<open>Reading a run\<close>

text \<open>
  The state in which the inner handler is called on a traced request (lines 92 to 98):
  the span, the request the middleware installed, and the state.
\<close>

definition handler_entry ::
  "globals \<Rightarrow> OTelConfig \<Rightarrow> nat \<Rightarrow> string \<Rightarrow> world \<Rightarrow> span \<times> nat \<times> world" where
  "handler_entry G cfg r name c =
     (case start_span G cfg r name c of
        (reqCtx, sp, c') \<Rightarrow> (case install r reqCtx c' of (r', c'') \<Rightarrow> (sp, r', c'')))"

fun is_start :: "action \<Rightarrow> bool" where
  "is_start (CallStart name kind sp) = True"
| "is_start a = False"

fun is_end :: "action \<Rightarrow> bool" where
  "is_end (CallEnd sp) = True"
| "is_end a = False"

fun is_set_attributes :: "action \<Rightarrow> bool" where
  "is_set_attributes (CallSetAttributes sp attrs) = True"
| "is_set_attributes a = False"

fun is_set_status :: "action \<Rightarrow> bool" where
  "is_set_status (CallSetStatus sp code desc) = True"
| "is_set_status a = False"


fun is_status_op :: "span_op \<Rightarrow> bool" where
  "is_status_op (OpSetStatus code desc) = True"
| "is_status_op op = False"

text \<open>The calls of the finalizing step on the span \<open>sp\<close>.\<close>

fun finalization_call :: "span \<Rightarrow> action \<Rightarrow> bool" where
  "finalization_call sp (CallSetAttributes s attrs) = (s = sp)"
| "finalization_call sp (CallSetStatus s code desc) = (s = sp)"
| "finalization_call sp (CallRecordError s e) = (s = sp)"
| "finalization_call sp a = False"

section \<open>Sample requests\<close>

text \<open>
  A request \<^verbatim>\<open>GET /u/1\<close> that no router has matched yet and whose context carries no span,
  a recording global tracer, a propagator that finds no remote parent, and the entries of
  \<^verbatim>\<open>http.StatusText\<close> the examples use.
\<close>

definition StatusText0 :: "int \<Rightarrow> string" where
  "StatusText0 n =
     (if n = 200 then ''OK'' else if n = 404 then ''Not Found''
      else if n = 500 then ''Internal Server Error'' else '''')"

definition G0 :: globals where
  "G0 = \<lparr>http_StatusText = StatusText0, otel_Tracer = RecordingTracer,
         otel_GetTextMapPropagator = (\<lambda>ctx carrier. ctx)\<rparr>"

definition background :: Context where
  "background = \<lparr>ctx_span = None, ctx_values = []\<rparr>"

definition req0 :: request where
  "req0 = \<lparr>RemoteAddr = ''10.0.0.1:5000'', Header = [], req_ctx = background\<rparr>"

definition no_span :: span_rec where
  "no_span = \<lparr>rec_tracer = '''', rec_name = '''', rec_kind = SpanKindInternal,
              rec_parent = background, rec_ops = []\<rparr>"

definition w0 :: world where
  "w0 = \<lparr>Method = ''GET'', Path = ''/u/1'', Route = '''', StatusCode = 0, Request = 0,
         requests = (\<lambda>a. req0), next_request = 1, spans = (\<lambda>i. no_span), next_span = 0,
         clock = 0\<rparr>"

text \<open>The configuration of \<^verbatim>\<open>OTel("svc")\<close>, and variants of it as the tests configure them.\<close>

definition cfg_svc :: OTelConfig where
  "cfg_svc = \<lparr>Tracer = None, Propagator = None, FilterFunc = None, SpanNameFunc = None,
              AttributesFunc = None, StatusFunc = None, RecordDuration = False,
              ServiceName = ''svc'', ExtraAttributes = []\<rparr>"

definition cfg_skip :: OTelConfig where
  "cfg_skip = cfg_svc\<lparr>FilterFunc := Some (\<lambda>c. (Inr (Path c = ''/u/1''), c))\<rparr>"

definition cfg_custom_name :: OTelConfig where
  "cfg_custom_name = cfg_svc\<lparr>SpanNameFunc := Some (\<lambda>c. (Inr ''CUSTOM NAME'', c))\<rparr>"

definition cfg_empty_name :: OTelConfig where
  "cfg_empty_name = cfg_svc\<lparr>SpanNameFunc := Some (\<lambda>c. (Inr '''', c))\<rparr>"

definition cfg_panicking_name :: OTelConfig where
  "cfg_panicking_name = cfg_svc\<lparr>SpanNameFunc := Some (\<lambda>c. (Inl (Panic ''name''), c))\<rparr>"


definition cfg_status_ok :: OTelConfig where
  "cfg_status_ok = cfg_svc\<lparr>StatusFunc := Some (\<lambda>status err. Inr (codes_Ok, ''''))\<rparr>"

definition cfg_full :: OTelConfig where
  "cfg_full = cfg_svc\<lparr>AttributesFunc := Some (\<lambda>c. (Inr [(''custom.attr'', StringValue ''v'')], c)),
                     ExtraAttributes := [(''extra.attr'', StringValue ''x'')],
                     RecordDuration := True\<rparr>"

text \<open>
  Handlers: the router matches the route \<^verbatim>\<open>/u/:id\<close> while the request is delegated;
  \<open>h_boom\<close> then returns \<^verbatim>\<open>errors.New("boom")\<close> without writing a status, \<open>h_panic\<close>
  panics, \<open>h_ok\<close> returns \<^verbatim>\<open>nil\<close> without writing a status. Each takes 5 ms.
\<close>

definition h_boom :: Handler where
  "h_boom c = (Inr (Some (GoError ''boom'')), c\<lparr>Route := ''/u/:id'', clock := clock c + 5000000\<rparr>)"

definition h_panic :: Handler where
  "h_panic c = (Inl (Panic ''handler''), c\<lparr>Route := ''/u/:id'', clock := clock c + 5000000\<rparr>)"

definition h_ok :: Handler where
  "h_ok c = (Inr None, c\<lparr>Route := ''/u/:id'', clock := clock c + 5000000\<rparr>)"

text \<open>The state in which the handler of the sample request is called, and the one it leaves.\<close>

definition w0_entry :: world where
  "w0_entry =
     w0\<lparr>Request := 1,
        requests := (requests w0)(1 := req0\<lparr>req_ctx := background\<lparr>ctx_span := Some (RecordingSpan 0)\<rparr>\<rparr>),
        next_request := 2,
        spans := (spans w0)(0 := \<lparr>rec_tracer = ''GoFlash'', rec_name = ''GET /u/1'',
                                  rec_kind = SpanKindServer, rec_parent = background,
                                  rec_ops = []\<rparr>),
        next_span := 1\<rparr>"

definition w0_exit :: world where
  "w0_exit = w0_entry\<lparr>Route := ''/u/:id'', clock := 5000000\<rparr>"


section \<open>The shape of a run\<close>

lemma run_traced:
  assumes "call_FilterFunc cfg c = (Inr False, c0)"
      and "spanName cfg c0 = (Inr name, c1)"
      and "start_span G cfg (Request c0) name c1 = (reqCtx, sp, c2)"
  shows "OTelWithConfig_run G cfg next c =
           after_calls
             [CallExtract (req_ctx (requests c1 (Request c0))) (Header (requests c1 (Request c0))),
              CallStart name SpanKindServer sp]
             (defer_End sp (traced_body G cfg next sp (Request c0) reqCtx c2))"
  using assms by (simp add: OTelWithConfig_run_def Let_def)

text \<open>
  A panic of the filter or of the span name function leaves the middleware before it has
  called anything: the handler is not called, no span is started.
\<close>

lemma run_filter_panics:
  assumes "call_FilterFunc cfg c = (Inl p, c0)"
  shows "OTelWithConfig_run G cfg next c = (Inl p, c0, [])"
  using assms by (simp add: OTelWithConfig_run_def)

lemma run_name_panics:
  assumes "call_FilterFunc cfg c = (Inr False, c0)"
      and "spanName cfg c0 = (Inl p, c1)"
  shows "OTelWithConfig_run G cfg next c = (Inl p, c1, [])"
  using assms by (simp add: OTelWithConfig_run_def Let_def)

lemma finalize_calls:
  "\<forall>a \<in> set (actions (finalize G cfg sp r elapsed err c)). finalization_call sp a"
  by (auto simp: finalize_def actions_def Let_def split: prod.splits sum.splits option.splits)

lemma traced_body_calls:
  "\<exists>mid. actions (traced_body G cfg next sp r reqCtx c) = CallNext # mid
         \<and> (\<forall>a \<in> set mid. finalization_call sp a)"
proof -
  obtain r' c' where i: "install r reqCtx c = (r', c')"
    by (cases "install r reqCtx c")
  obtain out c'' where n: "next c' = (out, c'')"
    by (cases "next c'")
  show ?thesis
  proof (cases out)
    case (Inl p)
    with i n show ?thesis
      by (simp add: traced_body_def actions_def)
  next
    case (Inr err)
    obtain out' w acts
      where f: "finalize G cfg sp r' (time_Since (clock c') c'') err c'' = (out', w, acts)"
      by (cases "finalize G cfg sp r' (time_Since (clock c') c'') err c''")
    from finalize_calls [of G cfg sp r' "time_Since (clock c') c''" err c''] f
    have "\<forall>a \<in> set acts. finalization_call sp a"
      by (simp add: actions_def)
    with i n Inr f show ?thesis
      by (simp add: traced_body_def actions_def after_calls_def)
  qed
qed

lemma finalization_call_not_start_end:
  "finalization_call sp a \<Longrightarrow> \<not> is_start a \<and> \<not> is_end a"
  by (cases a) simp_all

lemma span_call_last:
  "rec_ops (spans (span_call (RecordingSpan i) op w) i) = rec_ops (spans w i) @ [op]"
  by simp

text \<open>The handler returned: the run is the finalizing step between the calls around it.\<close>

lemma run_returned:
  assumes "call_FilterFunc cfg c = (Inr False, c0)"
      and "spanName cfg c0 = (Inr name, c1)"
      and "handler_entry G cfg (Request c0) name c1 = (sp, r', c4)"
      and "next c4 = (Inr err, c5)"
  shows "OTelWithConfig_run G cfg next c =
           after_calls
             [CallExtract (req_ctx (requests c1 (Request c0))) (Header (requests c1 (Request c0))),
              CallStart name SpanKindServer sp, CallNext]
             (defer_End sp (finalize G cfg sp r' (time_Since (clock c4) c5) err c5))"
proof -
  obtain reqCtx c2 where s: "start_span G cfg (Request c0) name c1 = (reqCtx, sp, c2)"
    and i: "install (Request c0) reqCtx c2 = (r', c4)"
    using assms(3) by (auto simp: handler_entry_def split: prod.splits)
  obtain out w acts
    where f: "finalize G cfg sp r' (time_Since (clock c4) c5) err c5 = (out, w, acts)"
    by (cases "finalize G cfg sp r' (time_Since (clock c4) c5) err c5")
  show ?thesis
    unfolding run_traced [OF assms(1,2) s]
    using i assms(4) f by (simp add: traced_body_def after_calls_def defer_End_def)
qed

text \<open>The finalizing step when the attributes function returned.\<close>

lemma finalize_returned:
  assumes "call_AttributesFunc cfg c = (Inr added, c1)"
      and "attrs =
             [(''http.method'', StringValue (Method c)),
              (''http.target'', StringValue (Path c)),
              (''net.peer.addr'', StringValue (RemoteAddr (requests c r)))]
             @ (if Route c \<noteq> '''' then [(''http.route'', StringValue (Route c))] else [])
             @ (if ServiceName cfg \<noteq> '''' then [(''service.name'', StringValue (ServiceName cfg))]
                else [])
             @ added
             @ ExtraAttributes cfg
             @ [(''http.status_code'', Int64Value (effective_status c))]
             @ (if RecordDuration cfg
                then [(''http.server.duration_ms'', Float64Quotient elapsed 1000000)] else [])"
  shows "finalize G cfg sp r elapsed err c =
           (case spanStatus G cfg (effective_status c) err of
              Inl p \<Rightarrow> (Inl p, span_call sp (OpSetAttributes attrs) c1, [CallSetAttributes sp attrs])
            | Inr (code, desc) \<Rightarrow>
                (Inr err,
                 (case err of None \<Rightarrow> (\<lambda>w. w) | Some e \<Rightarrow> span_call sp (OpRecordError e))
                   (span_call sp (OpSetStatus code desc) (span_call sp (OpSetAttributes attrs) c1)),
                 [CallSetAttributes sp attrs, CallSetStatus sp code desc]
                 @ (case err of None \<Rightarrow> [] | Some e \<Rightarrow> [CallRecordError sp e])))"
  using assms
  by (simp add: finalize_def Let_def split: sum.splits option.splits prod.splits)

lemma h_boom_entry: "h_boom w0_entry = (Inr (Some (GoError ''boom'')), w0_exit)"
  by (simp add: h_boom_def w0_exit_def w0_entry_def w0_def)

text \<open>The whole run when the handler and the attributes function returned.\<close>

lemma run_finalized:
  assumes "call_FilterFunc cfg c = (Inr False, c0)"
      and "spanName cfg c0 = (Inr name, c1)"
      and "handler_entry G cfg (Request c0) name c1 = (sp, r', c4)"
      and "next c4 = (Inr err, c5)"
      and "call_AttributesFunc cfg c5 = (Inr added, c6)"
      and "attrs =
             [(''http.method'', StringValue (Method c5)),
              (''http.target'', StringValue (Path c5)),
              (''net.peer.addr'', StringValue (RemoteAddr (requests c5 r')))]
             @ (if Route c5 \<noteq> '''' then [(''http.route'', StringValue (Route c5))] else [])
             @ (if ServiceName cfg \<noteq> '''' then [(''service.name'', StringValue (ServiceName cfg))]
                else [])
             @ added
             @ ExtraAttributes cfg
             @ [(''http.status_code'', Int64Value (effective_status c5))]
             @ (if RecordDuration cfg
                then [(''http.server.duration_ms'',
                       Float64Quotient (time_Since (clock c4) c5) 1000000)]
                else [])"
      and "pre =
             [CallExtract (req_ctx (requests c1 (Request c0))) (Header (requests c1 (Request c0))),
              CallStart name SpanKindServer sp, CallNext, CallSetAttributes sp attrs]"
  shows "OTelWithConfig_run G cfg next c =
           (case spanStatus G cfg (effective_status c5) err of
              Inl p \<Rightarrow>
                (Inl p, span_call sp OpEnd (span_call sp (OpSetAttributes attrs) c6),
                 pre @ [CallEnd sp])
            | Inr (code, desc) \<Rightarrow>
                (Inr err,
                 span_call sp OpEnd
                   ((case err of None \<Rightarrow> (\<lambda>w. w) | Some e \<Rightarrow> span_call sp (OpRecordError e))
                      (span_call sp (OpSetStatus code desc)
                         (span_call sp (OpSetAttributes attrs) c6))),
                 pre @ [CallSetStatus sp code desc]
                 @ (case err of None \<Rightarrow> [] | Some e \<Rightarrow> [CallRecordError sp e])
                 @ [CallEnd sp]))"
  unfolding run_returned [where ?next = "next", OF assms(1-4)]
    finalize_returned [OF assms(5,6)] assms(7)
  by (simp add: after_calls_def defer_End_def split: sum.splits prod.splits)



text \<open>The sample request under \<^verbatim>\<open>OTel("svc")\<close>.\<close>

lemma cfg_svc_filter: "call_FilterFunc cfg_svc w0 = (Inr False, w0)"
  by (simp add: call_FilterFunc_def cfg_svc_def)

lemma cfg_svc_name: "spanName cfg_svc w0 = (Inr ''GET /u/1'', w0)"
  by (simp add: spanName_def defaultSpanName_def cfg_svc_def w0_def)

lemma cfg_svc_entry:
  "handler_entry G0 cfg_svc (Request w0) ''GET /u/1'' w0 = (RecordingSpan 0, 1, w0_entry)"
  by (simp add: handler_entry_def start_span_def install_def WithContext_def SetRequest_def
      the_tracer_def the_propagator_def G0_def cfg_svc_def w0_def w0_entry_def req0_def)

section \<open>The default status mapper\<close>

text \<open>
  Claim C1. For every status code and error, the default status mapper (the one used when
  no \<^verbatim>\<open>StatusFunc\<close> is configured) returns \<^verbatim>\<open>(Error, http.StatusText(code))\<close> if and only
  if the error is non-nil or the code is at least 500, and \<^verbatim>\<open>(Ok, "")\<close> otherwise; so
  \<^verbatim>\<open>status(404, nil)\<close> is \<^verbatim>\<open>(Ok, "")\<close>.
\<close>

theorem C1_default_status_policy:
  "((defaultStatus T status err = (codes_Error, T status)) \<longleftrightarrow> (err \<noteq> None \<or> status \<ge> 500))
   \<and> ((defaultStatus T status err = (codes_Ok, '''')) \<longleftrightarrow> \<not> (err \<noteq> None \<or> status \<ge> 500))
   \<and> defaultStatus T 404 None = (codes_Ok, '''')
   \<and> (StatusFunc cfg = None \<longrightarrow>
        spanStatus G cfg status err = Inr (defaultStatus (http_StatusText G) status err))"
  by (simp add: defaultStatus_def spanStatus_def)

theorem C1_default_status_policy_witness:
  "StatusFunc cfg_svc = None
   \<and> defaultStatus StatusText0 200 (Some (GoError ''boom'')) = (codes_Error, ''OK'')
   \<and> spanStatus G0 cfg_svc 200 (Some (GoError ''boom'')) = Inr (codes_Error, ''OK'')
   \<and> defaultStatus StatusText0 404 None = (codes_Ok, '''')"
  using C1_default_status_policy [of StatusText0 200 "Some (GoError ''boom'')" cfg_svc G0]
  by (simp add: StatusText0_def G0_def cfg_svc_def)

section \<open>The span of a request\<close>



text \<open>
  Two runs on the sample request: the handler panics after the span has been started, and
  the span name function panics before.
\<close>

lemma sample_handler_panics:
  "outcome (OTelWithConfig_run G0 cfg_svc h_panic w0) = Inl (Panic ''handler'')
   \<and> actions (OTelWithConfig_run G0 cfg_svc h_panic w0) =
       [CallExtract background [], CallStart ''GET /u/1'' SpanKindServer (RecordingSpan 0),
        CallNext, CallEnd (RecordingSpan 0)]
   \<and> rec_ops (spans (final (OTelWithConfig_run G0 cfg_svc h_panic w0)) 0) = [OpEnd]"
proof -
  have s: "start_span G0 cfg_svc (Request w0) ''GET /u/1'' w0 =
             (background\<lparr>ctx_span := Some (RecordingSpan 0)\<rparr>, RecordingSpan 0,
              w0\<lparr>spans := (spans w0)(0 := \<lparr>rec_tracer = ''GoFlash'', rec_name = ''GET /u/1'',
                                            rec_kind = SpanKindServer, rec_parent = background,
                                            rec_ops = []\<rparr>),
                 next_span := 1\<rparr>)"
    by (simp add: start_span_def the_tracer_def the_propagator_def G0_def cfg_svc_def w0_def
        req0_def)
  show ?thesis
    unfolding run_traced [OF cfg_svc_filter cfg_svc_name s]
    by (simp add: traced_body_def install_def WithContext_def SetRequest_def h_panic_def
        after_calls_def defer_End_def outcome_def actions_def final_def w0_def req0_def)
qed

lemma sample_name_panics:
  "OTelWithConfig_run G0 cfg_panicking_name h_boom w0 = (Inl (Panic ''name''), w0, [])"
proof -
  have f: "call_FilterFunc cfg_panicking_name w0 = (Inr False, w0)"
    by (simp add: call_FilterFunc_def cfg_panicking_name_def cfg_svc_def)
  have n: "spanName cfg_panicking_name w0 = (Inl (Panic ''name''), w0)"
    by (simp add: spanName_def cfg_panicking_name_def cfg_svc_def)
  show ?thesis
    by (rule run_name_panics [OF f n])
qed

text \<open>
  Claim C3. For every request where a configured \<^verbatim>\<open>FilterFunc\<close> returns true, the
  middleware calls the inner handler in the state the filter left (the middleware itself
  changes nothing: with a filter that only reads, it is the original state) and returns
  what the handler returns, outcome and state; the call of the handler is its only call:
  no context is extracted, no span started, no attribute set.
\<close>

theorem C3_filtered_passthrough:
  assumes "FilterFunc cfg = Some f"
      and "f c = (Inr True, c0)"
  shows "OTelWithConfig G cfg next c = next c0
       \<and> actions (OTelWithConfig_run G cfg next c) = [CallNext]
       \<and> (c0 = c \<longrightarrow> OTelWithConfig G cfg next c = next c)"
  using assms
  by (simp add: OTelWithConfig_def OTelWithConfig_run_def call_FilterFunc_def outcome_def
      final_def actions_def split: prod.splits)

theorem C3_filtered_passthrough_witness:
  "FilterFunc cfg_skip = Some (\<lambda>c. (Inr (Path c = ''/u/1''), c))
   \<and> (Inr (Path w0 = ''/u/1''), w0) = (Inr True, w0)
   \<and> OTelWithConfig G0 cfg_skip h_boom w0 = h_boom w0
   \<and> actions (OTelWithConfig_run G0 cfg_skip h_boom w0) = [CallNext]"
proof -
  have f: "FilterFunc cfg_skip = Some (\<lambda>c. (Inr (Path c = ''/u/1''), c))"
    by (simp add: cfg_skip_def cfg_svc_def)
  have t: "(\<lambda>c. (Inr (Path c = ''/u/1''), c)) w0 = (Inr True, w0)"
    by (simp add: w0_def)
  from C3_filtered_passthrough [OF f t, of G0 h_boom] f t show ?thesis
    by simp
qed

section \<open>What the finalizing step records\<close>



text \<open>
  Claim C5. For every traced request whose handler returned, the middleware sets the
  attributes of the span once, with the list assembled in this order: \<^verbatim>\<open>http.method\<close>,
  \<^verbatim>\<open>http.target\<close>, \<^verbatim>\<open>net.peer.addr\<close> (always); \<^verbatim>\<open>http.route\<close> (only if a route is set);
  \<^verbatim>\<open>service.name\<close> (only if \<^verbatim>\<open>ServiceName\<close> is not empty); what \<^verbatim>\<open>AttributesFunc\<close> returned
  (nothing if it is not configured); \<^verbatim>\<open>ExtraAttributes\<close>; \<^verbatim>\<open>http.status_code\<close> (always);
  \<^verbatim>\<open>http.server.duration_ms\<close> (if and only if \<^verbatim>\<open>RecordDuration\<close> is true). When
  \<^verbatim>\<open>AttributesFunc\<close> panics instead, no attributes are set.
\<close>

theorem C5_attribute_order:
  assumes "call_FilterFunc cfg c = (Inr False, c0)"
      and "spanName cfg c0 = (Inr name, c1)"
      and "handler_entry G cfg (Request c0) name c1 = (sp, r', c4)"
      and "next c4 = (Inr err, c5)"
  shows "(\<forall>added c6.
            call_AttributesFunc cfg c5 = (Inr added, c6) \<longrightarrow>
              filter is_set_attributes (actions (OTelWithConfig_run G cfg next c)) =
                [CallSetAttributes sp
                   ([(''http.method'', StringValue (Method c5)),
                     (''http.target'', StringValue (Path c5)),
                     (''net.peer.addr'', StringValue (RemoteAddr (requests c5 r')))]
                    @ (if Route c5 \<noteq> '''' then [(''http.route'', StringValue (Route c5))] else [])
                    @ (if ServiceName cfg \<noteq> ''''
                       then [(''service.name'', StringValue (ServiceName cfg))] else [])
                    @ added
                    @ ExtraAttributes cfg
                    @ [(''http.status_code'', Int64Value (effective_status c5))]
                    @ (if RecordDuration cfg
                       then [(''http.server.duration_ms'',
                              Float64Quotient (time_Since (clock c4) c5) 1000000)]
                       else []))]
              \<and> (AttributesFunc cfg = None \<longrightarrow> added = [])
              \<and> (\<forall>f. AttributesFunc cfg = Some f \<longrightarrow> f c5 = (Inr added, c6)))
       \<and> (\<forall>p c6.
            call_AttributesFunc cfg c5 = (Inl p, c6) \<longrightarrow>
              filter is_set_attributes (actions (OTelWithConfig_run G cfg next c)) = []
              \<and> outcome (OTelWithConfig_run G cfg next c) = Inl p)"
proof -
  let ?run = "OTelWithConfig_run G cfg next c"
  have 1: "filter is_set_attributes (actions ?run) = [] \<and> outcome ?run = Inl p"
    if "call_AttributesFunc cfg c5 = (Inl p, c6)" for p c6
    unfolding run_returned [where ?next = "next", OF assms]
    using that
    by (simp add: finalize_def Let_def after_calls_def defer_End_def actions_def outcome_def)
  have 2: "(AttributesFunc cfg = None \<longrightarrow> added = [])
           \<and> (\<forall>f. AttributesFunc cfg = Some f \<longrightarrow> f c5 = (Inr added, c6))"
    if "call_AttributesFunc cfg c5 = (Inr added, c6)" for added c6
    using that by (auto simp: call_AttributesFunc_def)
  have 3: "filter is_set_attributes (actions ?run) =
             [CallSetAttributes sp
                ([(''http.method'', StringValue (Method c5)),
                  (''http.target'', StringValue (Path c5)),
                  (''net.peer.addr'', StringValue (RemoteAddr (requests c5 r')))]
                 @ (if Route c5 \<noteq> '''' then [(''http.route'', StringValue (Route c5))] else [])
                 @ (if ServiceName cfg \<noteq> ''''
                    then [(''service.name'', StringValue (ServiceName cfg))] else [])
                 @ added
                 @ ExtraAttributes cfg
                 @ [(''http.status_code'', Int64Value (effective_status c5))]
                 @ (if RecordDuration cfg
                    then [(''http.server.duration_ms'',
                           Float64Quotient (time_Since (clock c4) c5) 1000000)]
                    else []))]"
    if a: "call_AttributesFunc cfg c5 = (Inr added, c6)" for added c6
    unfolding run_finalized [where ?next = "next", OF assms a refl refl]
    by (simp add: actions_def split: sum.splits option.splits)
  from 1 2 3 show ?thesis
    by blast
qed

theorem C5_attribute_order_witness:
  "call_FilterFunc cfg_full w0 = (Inr False, w0)
   \<and> spanName cfg_full w0 = (Inr ''GET /u/1'', w0)
   \<and> h_boom w0_entry = (Inr (Some (GoError ''boom'')), w0_exit)
   \<and> call_AttributesFunc cfg_full w0_exit = (Inr [(''custom.attr'', StringValue ''v'')], w0_exit)
   \<and> filter is_set_attributes (actions (OTelWithConfig_run G0 cfg_full h_boom w0)) =
       [CallSetAttributes (RecordingSpan 0)
          [(''http.method'', StringValue ''GET''),
           (''http.target'', StringValue ''/u/1''),
           (''net.peer.addr'', StringValue ''10.0.0.1:5000''),
           (''http.route'', StringValue ''/u/:id''),
           (''service.name'', StringValue ''svc''),
           (''custom.attr'', StringValue ''v''),
           (''extra.attr'', StringValue ''x''),
           (''http.status_code'', Int64Value 200),
           (''http.server.duration_ms'', Float64Quotient 5000000 1000000)]]"
proof -
  have f: "call_FilterFunc cfg_full w0 = (Inr False, w0)"
    by (simp add: call_FilterFunc_def cfg_full_def cfg_svc_def)
  have n: "spanName cfg_full w0 = (Inr ''GET /u/1'', w0)"
    by (simp add: spanName_def defaultSpanName_def cfg_full_def cfg_svc_def w0_def)
  have e: "handler_entry G0 cfg_full (Request w0) ''GET /u/1'' w0 = (RecordingSpan 0, 1, w0_entry)"
    by (simp add: handler_entry_def start_span_def install_def WithContext_def SetRequest_def
        the_tracer_def the_propagator_def G0_def cfg_full_def cfg_svc_def
        w0_def w0_entry_def req0_def)
  have a: "call_AttributesFunc cfg_full w0_exit = (Inr [(''custom.attr'', StringValue ''v'')], w0_exit)"
    by (simp add: call_AttributesFunc_def cfg_full_def cfg_svc_def)
  from C5_attribute_order [where ?next = h_boom, OF f n e h_boom_entry] a
  have "filter is_set_attributes (actions (OTelWithConfig_run G0 cfg_full h_boom w0)) =
          [CallSetAttributes (RecordingSpan 0)
             ([(''http.method'', StringValue (Method w0_exit)),
               (''http.target'', StringValue (Path w0_exit)),
               (''net.peer.addr'', StringValue (RemoteAddr (requests w0_exit 1)))]
              @ (if Route w0_exit \<noteq> '''' then [(''http.route'', StringValue (Route w0_exit))]
                 else [])
              @ (if ServiceName cfg_full \<noteq> ''''
                 then [(''service.name'', StringValue (ServiceName cfg_full))] else [])
              @ [(''custom.attr'', StringValue ''v'')]
              @ ExtraAttributes cfg_full
              @ [(''http.status_code'', Int64Value (effective_status w0_exit))]
              @ (if RecordDuration cfg_full
                 then [(''http.server.duration_ms'',
                        Float64Quotient (time_Since (clock w0_entry) w0_exit) 1000000)]
                 else []))]"
    by blast
  with f n a h_boom_entry show ?thesis
    by (simp add: cfg_full_def cfg_svc_def w0_exit_def w0_entry_def w0_def req0_def
        effective_status_def time_Since_def)
qed




section \<open>The span name\<close>

text \<open>
  Claim C7. For every traced request, the name of the span the middleware starts is the
  value of a configured \<^verbatim>\<open>SpanNameFunc\<close> when that value is not empty; when
  \<^verbatim>\<open>SpanNameFunc\<close> is absent or returns the empty string, it is \<^verbatim>\<open>METHOD + " " + route\<close> if
  a route is set and \<^verbatim>\<open>METHOD + " " + path\<close> otherwise. The name is never empty; a
  recording tracer keeps it in the record of the span.
\<close>

theorem C7_span_name:
  assumes "call_FilterFunc cfg c = (Inr False, c0)"
      and "spanName cfg c0 = (Inr name, c1)"
      and "handler_entry G cfg (Request c0) name c1 = (sp, r', c4)"
  shows "filter is_start (actions (OTelWithConfig_run G cfg next c)) =
           [CallStart name SpanKindServer sp]
       \<and> (\<forall>i. sp = RecordingSpan i \<longrightarrow> rec_name (spans c4 i) = name)
       \<and> (SpanNameFunc cfg = None \<longrightarrow>
             name = (if Route c0 \<noteq> '''' then Method c0 @ '' '' @ Route c0
                     else Method c0 @ '' '' @ Path c0))
       \<and> (\<forall>f n c'.
             SpanNameFunc cfg = Some f \<and> f c0 = (Inr n, c') \<longrightarrow>
               name = (if n \<noteq> '''' then n
                       else if Route c0 \<noteq> '''' then Method c0 @ '' '' @ Route c0
                       else Method c0 @ '' '' @ Path c0))
       \<and> name \<noteq> ''''"
proof -
  let ?run = "OTelWithConfig_run G cfg next c"
  obtain reqCtx c2 where s: "start_span G cfg (Request c0) name c1 = (reqCtx, sp, c2)"
    and i: "install (Request c0) reqCtx c2 = (r', c4)"
    using assms(3) by (auto simp: handler_entry_def split: prod.splits)
  obtain out w acts where b: "traced_body G cfg next sp (Request c0) reqCtx c2 = (out, w, acts)"
    by (cases "traced_body G cfg next sp (Request c0) reqCtx c2")
  obtain mid where m: "acts = CallNext # mid" and fin: "\<forall>a \<in> set mid. finalization_call sp a"
    using traced_body_calls [of G cfg "next" sp "Request c0" reqCtx c2] b
    by (auto simp: actions_def)
  have "\<forall>a \<in> set mid. \<not> is_start a"
    using fin finalization_call_not_start_end by blast
  then have 1: "filter is_start (actions ?run) = [CallStart name SpanKindServer sp]"
    unfolding run_traced [OF assms(1,2) s] b m
    by (simp add: after_calls_def defer_End_def actions_def)
  have 2: "\<forall>i. sp = RecordingSpan i \<longrightarrow> rec_name (spans c4 i) = name"
    using s i
    by (cases "the_tracer G cfg")
       (auto simp: start_span_def install_def WithContext_def SetRequest_def Let_def)
  have 3: "SpanNameFunc cfg = None \<longrightarrow>
             name = (if Route c0 \<noteq> '''' then Method c0 @ '' '' @ Route c0
                     else Method c0 @ '' '' @ Path c0)"
    using assms(2) by (auto simp: spanName_def defaultSpanName_def Let_def)
  have 4: "\<forall>f n c'.
             SpanNameFunc cfg = Some f \<and> f c0 = (Inr n, c') \<longrightarrow>
               name = (if n \<noteq> '''' then n
                       else if Route c0 \<noteq> '''' then Method c0 @ '' '' @ Route c0
                       else Method c0 @ '' '' @ Path c0)"
    using assms(2) by (auto simp: spanName_def defaultSpanName_def Let_def)
  have 5: "name \<noteq> ''''"
    using assms(2)
    by (auto simp: spanName_def defaultSpanName_def Let_def
        split: option.splits prod.splits sum.splits if_splits)
  from 1 2 3 4 5 show ?thesis
    by blast
qed

theorem C7_span_name_witness:
  "call_FilterFunc cfg_empty_name w0 = (Inr False, w0)
   \<and> spanName cfg_empty_name w0 = (Inr ''GET /u/1'', w0)
   \<and> filter is_start (actions (OTelWithConfig_run G0 cfg_empty_name h_ok w0)) =
       [CallStart ''GET /u/1'' SpanKindServer (RecordingSpan 0)]
   \<and> rec_name (spans w0_entry 0) = ''GET /u/1''"
proof -
  have f: "call_FilterFunc cfg_empty_name w0 = (Inr False, w0)"
    by (simp add: call_FilterFunc_def cfg_empty_name_def cfg_svc_def)
  have n: "spanName cfg_empty_name w0 = (Inr ''GET /u/1'', w0)"
    by (simp add: spanName_def defaultSpanName_def cfg_empty_name_def cfg_svc_def w0_def)
  have e: "handler_entry G0 cfg_empty_name (Request w0) ''GET /u/1'' w0 =
             (RecordingSpan 0, 1, w0_entry)"
    by (simp add: handler_entry_def start_span_def install_def WithContext_def SetRequest_def
        the_tracer_def the_propagator_def G0_def cfg_empty_name_def cfg_svc_def
        w0_def w0_entry_def req0_def)
  from C7_span_name [OF f n e, of h_ok] f n show ?thesis
    by simp
qed

section \<open>A configured status function\<close>

text \<open>
  Claim C8. For every status code and error, when a \<^verbatim>\<open>StatusFunc\<close> is configured the status
  mapper is that function: on a traced request the span status is exactly what the function
  returns for the effective status and the error value the handler returned, and if the
  function panics no status is set. The default mapping contributes nothing: the run does
  not depend on \<^verbatim>\<open>http.StatusText\<close>.
\<close>

theorem C8_custom_status_replaces_default:
  assumes "StatusFunc cfg = Some f"
      and "call_FilterFunc cfg c = (Inr False, c0)"
      and "spanName cfg c0 = (Inr name, c1)"
      and "handler_entry G cfg (Request c0) name c1 = (sp, r', c4)"
      and "next c4 = (Inr err, c5)"
      and "call_AttributesFunc cfg c5 = (Inr added, c6)"
  shows "spanStatus G cfg status e = f status e
       \<and> (\<forall>code desc.
             f (effective_status c5) err = Inr (code, desc) \<longrightarrow>
               filter is_set_status (actions (OTelWithConfig_run G cfg next c)) =
                 [CallSetStatus sp code desc]
               \<and> (\<forall>i. sp = RecordingSpan i \<longrightarrow>
                     filter is_status_op
                       (drop (length (rec_ops (spans c6 i)))
                          (rec_ops (spans (final (OTelWithConfig_run G cfg next c)) i))) =
                       [OpSetStatus code desc]))
       \<and> (\<forall>p. f (effective_status c5) err = Inl p \<longrightarrow>
             filter is_set_status (actions (OTelWithConfig_run G cfg next c)) = []
             \<and> outcome (OTelWithConfig_run G cfg next c) = Inl p)
       \<and> OTelWithConfig_run (G\<lparr>http_StatusText := T\<rparr>) cfg next c =
           OTelWithConfig_run G cfg next c"
proof -
  let ?run = "OTelWithConfig_run G cfg next c"
  have 1: "spanStatus G' cfg status e = f status e" for G' status e
    using assms(1) by (simp add: spanStatus_def)
  note run = run_finalized [where ?next = "next", OF assms(2-6) refl refl, unfolded 1]
  have 2: "filter is_set_status (actions ?run) = [CallSetStatus sp code desc]
           \<and> (\<forall>i. sp = RecordingSpan i \<longrightarrow>
                 filter is_status_op
                   (drop (length (rec_ops (spans c6 i))) (rec_ops (spans (final ?run) i))) =
                   [OpSetStatus code desc])"
    if "f (effective_status c5) err = Inr (code, desc)" for code desc
    unfolding run that
    by (simp add: actions_def final_def split: option.splits)
  have 3: "filter is_set_status (actions ?run) = [] \<and> outcome ?run = Inl p"
    if "f (effective_status c5) err = Inl p" for p
    unfolding run that
    by (simp add: actions_def outcome_def)
  have fin: "finalize (G\<lparr>http_StatusText := T\<rparr>) cfg sp' r elapsed err' w =
             finalize G cfg sp' r elapsed err' w" for sp' r elapsed err' w
    unfolding finalize_def 1 by (rule refl)
  have tr: "the_tracer (G\<lparr>http_StatusText := T\<rparr>) cfg = the_tracer G cfg"
    by (simp add: the_tracer_def split: option.splits)
  have pr: "the_propagator (G\<lparr>http_StatusText := T\<rparr>) cfg = the_propagator G cfg"
    by (simp add: the_propagator_def split: option.splits)
  have st: "start_span (G\<lparr>http_StatusText := T\<rparr>) cfg = start_span G cfg"
    unfolding start_span_def tr pr by (rule refl)
  have tb: "traced_body (G\<lparr>http_StatusText := T\<rparr>) cfg next = traced_body G cfg next"
    unfolding traced_body_def fin by (rule refl)
  have 4: "OTelWithConfig_run (G\<lparr>http_StatusText := T\<rparr>) cfg next c = ?run"
    unfolding OTelWithConfig_run_def st tb by (rule refl)
  from 1 2 3 4 show ?thesis
    by blast
qed

theorem C8_custom_status_replaces_default_witness:
  "StatusFunc cfg_status_ok = Some (\<lambda>status err. Inr (codes_Ok, ''''))
   \<and> call_FilterFunc cfg_status_ok w0 = (Inr False, w0)
   \<and> spanName cfg_status_ok w0 = (Inr ''GET /u/1'', w0)
   \<and> h_boom w0_entry = (Inr (Some (GoError ''boom'')), w0_exit)
   \<and> call_AttributesFunc cfg_status_ok w0_exit = (Inr [], w0_exit)
   \<and> spanStatus G0 cfg_status_ok 500 None = Inr (codes_Ok, '''')
   \<and> filter is_set_status (actions (OTelWithConfig_run G0 cfg_status_ok h_boom w0)) =
       [CallSetStatus (RecordingSpan 0) codes_Ok '''']"
proof -
  have c: "StatusFunc cfg_status_ok = Some (\<lambda>status err. Inr (codes_Ok, ''''))"
    by (simp add: cfg_status_ok_def cfg_svc_def)
  have f: "call_FilterFunc cfg_status_ok w0 = (Inr False, w0)"
    by (simp add: call_FilterFunc_def cfg_status_ok_def cfg_svc_def)
  have n: "spanName cfg_status_ok w0 = (Inr ''GET /u/1'', w0)"
    by (simp add: spanName_def defaultSpanName_def cfg_status_ok_def cfg_svc_def w0_def)
  have e: "handler_entry G0 cfg_status_ok (Request w0) ''GET /u/1'' w0 =
             (RecordingSpan 0, 1, w0_entry)"
    by (simp add: handler_entry_def start_span_def install_def WithContext_def SetRequest_def
        the_tracer_def the_propagator_def G0_def cfg_status_ok_def cfg_svc_def
        w0_def w0_entry_def req0_def)
  have a: "call_AttributesFunc cfg_status_ok w0_exit = (Inr [], w0_exit)"
    by (simp add: call_AttributesFunc_def cfg_status_ok_def cfg_svc_def)
  from C8_custom_status_replaces_default
         [where ?next = h_boom, OF c f n e h_boom_entry a, of 500 None]
       c f n a h_boom_entry
  show ?thesis
    by simp
qed

text \<open>
  Claim C10, as amended. For every traced request, the span name is fixed before the inner
  handler is called (it is the same whatever the handler does), while \<^verbatim>\<open>http.target\<close> and
  \<^verbatim>\<open>http.route\<close> are taken from the path and the route as they are when the handler has
  returned. So, when \<^verbatim>\<open>SpanNameFunc\<close> is absent or returns the empty string and the route
  is set only while the request is delegated, the span name is \<^verbatim>\<open>METHOD + " " + path\<close> and
  the \<^verbatim>\<open>http.route\<close> attribute carries the route.
\<close>

theorem C10_name_before_attributes_after:
  assumes "call_FilterFunc cfg c = (Inr False, c0)"
      and "spanName cfg c0 = (Inr name, c1)"
      and "handler_entry G cfg (Request c0) name c1 = (sp, r', c4)"
      and "next c4 = (Inr err, c5)"
      and "call_AttributesFunc cfg c5 = (Inr added, c6)"
  shows "(\<forall>next'. filter is_start (actions (OTelWithConfig_run G cfg next' c)) =
                     [CallStart name SpanKindServer sp])
       \<and> (\<exists>rest.
             filter is_set_attributes (actions (OTelWithConfig_run G cfg next c)) =
               [CallSetAttributes sp
                  ([(''http.method'', StringValue (Method c5)),
                    (''http.target'', StringValue (Path c5)),
                    (''net.peer.addr'', StringValue (RemoteAddr (requests c5 r')))]
                   @ (if Route c5 \<noteq> '''' then [(''http.route'', StringValue (Route c5))] else [])
                   @ rest)])
       \<and> (SpanNameFunc cfg = None \<or> (\<exists>f c'. SpanNameFunc cfg = Some f \<and> f c0 = (Inr '''', c'))
            \<longrightarrow>
              name = (if Route c0 \<noteq> '''' then Method c0 @ '' '' @ Route c0
                      else Method c0 @ '' '' @ Path c0)
              \<and> (Route c0 = '''' \<and> Route c5 \<noteq> '''' \<longrightarrow>
                    name = Method c0 @ '' '' @ Path c0
                    \<and> (\<exists>rest.
                          filter is_set_attributes (actions (OTelWithConfig_run G cfg next c)) =
                            [CallSetAttributes sp
                               ([(''http.method'', StringValue (Method c5)),
                                 (''http.target'', StringValue (Path c5)),
                                 (''net.peer.addr'', StringValue (RemoteAddr (requests c5 r'))),
                                 (''http.route'', StringValue (Route c5))]
                                @ rest)])))"
proof -
  let ?run = "OTelWithConfig_run G cfg next c"
  obtain reqCtx c2 where s: "start_span G cfg (Request c0) name c1 = (reqCtx, sp, c2)"
    using assms(3) by (auto simp: handler_entry_def split: prod.splits)
  have 1: "filter is_start (actions (OTelWithConfig_run G cfg next' c)) =
             [CallStart name SpanKindServer sp]" for next'
  proof -
    obtain out w acts
      where b: "traced_body G cfg next' sp (Request c0) reqCtx c2 = (out, w, acts)"
      by (cases "traced_body G cfg next' sp (Request c0) reqCtx c2")
    obtain mid where m: "acts = CallNext # mid" and fin: "\<forall>a \<in> set mid. finalization_call sp a"
      using traced_body_calls [of G cfg next' sp "Request c0" reqCtx c2] b
      by (auto simp: actions_def)
    have "\<forall>a \<in> set mid. \<not> is_start a"
      using fin finalization_call_not_start_end by blast
    then show ?thesis
      unfolding run_traced [OF assms(1,2) s] b m
      by (simp add: after_calls_def defer_End_def actions_def)
  qed
  let ?rest = "(if ServiceName cfg \<noteq> '''' then [(''service.name'', StringValue (ServiceName cfg))]
                else [])
               @ added @ ExtraAttributes cfg
               @ [(''http.status_code'', Int64Value (effective_status c5))]
               @ (if RecordDuration cfg
                  then [(''http.server.duration_ms'',
                         Float64Quotient (time_Since (clock c4) c5) 1000000)]
                  else [])"
  have 2: "filter is_set_attributes (actions ?run) =
             [CallSetAttributes sp
                ([(''http.method'', StringValue (Method c5)),
                  (''http.target'', StringValue (Path c5)),
                  (''net.peer.addr'', StringValue (RemoteAddr (requests c5 r')))]
                 @ (if Route c5 \<noteq> '''' then [(''http.route'', StringValue (Route c5))] else [])
                 @ ?rest)]"
    unfolding run_finalized [where ?next = "next", OF assms refl refl]
    by (simp add: actions_def split: sum.splits option.splits)
  have 3: "name = (if Route c0 \<noteq> '''' then Method c0 @ '' '' @ Route c0
                   else Method c0 @ '' '' @ Path c0)"
    if "SpanNameFunc cfg = None \<or> (\<exists>f c'. SpanNameFunc cfg = Some f \<and> f c0 = (Inr '''', c'))"
    using that assms(2) by (auto simp: spanName_def defaultSpanName_def Let_def)
  have 4: "\<exists>rest. filter is_set_attributes (actions ?run) =
             [CallSetAttributes sp
                ([(''http.method'', StringValue (Method c5)),
                  (''http.target'', StringValue (Path c5)),
                  (''net.peer.addr'', StringValue (RemoteAddr (requests c5 r'))),
                  (''http.route'', StringValue (Route c5))]
                 @ rest)]"
    if "Route c5 \<noteq> ''''"
    unfolding 2 using that by (intro exI [of _ ?rest]) simp
  from 1 2 3 4 show ?thesis
    by (intro conjI allI impI exI [of _ ?rest]) simp_all
qed

theorem C10_name_before_attributes_after_witness:
  "call_FilterFunc cfg_svc w0 = (Inr False, w0)
   \<and> spanName cfg_svc w0 = (Inr ''GET /u/1'', w0)
   \<and> h_boom w0_entry = (Inr (Some (GoError ''boom'')), w0_exit)
   \<and> call_AttributesFunc cfg_svc w0_exit = (Inr [], w0_exit)
   \<and> SpanNameFunc cfg_svc = None \<and> Route w0 = '''' \<and> Route w0_exit = ''/u/:id''
   \<and> filter is_start (actions (OTelWithConfig_run G0 cfg_svc h_boom w0)) =
       [CallStart ''GET /u/1'' SpanKindServer (RecordingSpan 0)]
   \<and> (\<exists>rest.
         filter is_set_attributes (actions (OTelWithConfig_run G0 cfg_svc h_boom w0)) =
           [CallSetAttributes (RecordingSpan 0)
              ([(''http.method'', StringValue ''GET''),
                (''http.target'', StringValue ''/u/1''),
                (''net.peer.addr'', StringValue ''10.0.0.1:5000''),
                (''http.route'', StringValue ''/u/:id'')]
               @ rest)])"
proof -
  have a: "call_AttributesFunc cfg_svc w0_exit = (Inr [], w0_exit)"
    by (simp add: call_AttributesFunc_def cfg_svc_def)
  have d: "SpanNameFunc cfg_svc = None"
    by (simp add: cfg_svc_def)
  have r0: "Route w0 = ''''" and r5: "Route w0_exit = ''/u/:id''"
    by (simp_all add: w0_exit_def w0_entry_def w0_def)
  have v: "Method w0_exit = ''GET'' \<and> Path w0_exit = ''/u/1''
           \<and> RemoteAddr (requests w0_exit 1) = ''10.0.0.1:5000''"
    by (simp add: w0_exit_def w0_entry_def w0_def req0_def)
  from C10_name_before_attributes_after
         [where ?next = h_boom, OF cfg_svc_filter cfg_svc_name cfg_svc_entry h_boom_entry a]
       d r0 r5
  have "filter is_start (actions (OTelWithConfig_run G0 cfg_svc h_boom w0)) =
          [CallStart ''GET /u/1'' SpanKindServer (RecordingSpan 0)]
        \<and> (\<exists>rest.
              filter is_set_attributes (actions (OTelWithConfig_run G0 cfg_svc h_boom w0)) =
                [CallSetAttributes (RecordingSpan 0)
                   ([(''http.method'', StringValue (Method w0_exit)),
                     (''http.target'', StringValue (Path w0_exit)),
                     (''net.peer.addr'', StringValue (RemoteAddr (requests w0_exit 1))),
                     (''http.route'', StringValue (Route w0_exit))]
                    @ rest)])"
    by simp
  with v r5 cfg_svc_filter cfg_svc_name h_boom_entry a d r0 show ?thesis
    by simp
qed

text \<open>
  Claim C10 as stated fails: with a \<^verbatim>\<open>SpanNameFunc\<close> that returns a name of its own (as in
  \<^verbatim>\<open>TestOTelWithConfig_SpanNameOverride_And_NoWrite\<close>) and a route that is set only while
  the request is delegated, the span name is that name, not \<^verbatim>\<open>METHOD + " " + path\<close>.
\<close>

theorem C10_counterexample:
  "Route w0 = ''''
   \<and> Route (final (OTelWithConfig_run G0 cfg_custom_name h_boom w0)) = ''/u/:id''
   \<and> Method w0 @ '' '' @ Path w0 = ''GET /u/1''
   \<and> filter is_start (actions (OTelWithConfig_run G0 cfg_custom_name h_boom w0)) =
       [CallStart ''CUSTOM NAME'' SpanKindServer (RecordingSpan 0)]
   \<and> filter is_set_attributes (actions (OTelWithConfig_run G0 cfg_custom_name h_boom w0)) =
       [CallSetAttributes (RecordingSpan 0)
          [(''http.method'', StringValue ''GET''),
           (''http.target'', StringValue ''/u/1''),
           (''net.peer.addr'', StringValue ''10.0.0.1:5000''),
           (''http.route'', StringValue ''/u/:id''),
           (''service.name'', StringValue ''svc''),
           (''http.status_code'', Int64Value 200)]]"
proof -
  let ?entry = "w0_entry\<lparr>spans := (spans w0_entry)(0 := (spans w0_entry 0)\<lparr>rec_name := ''CUSTOM NAME''\<rparr>)\<rparr>"
  let ?exit = "?entry\<lparr>Route := ''/u/:id'', clock := 5000000\<rparr>"
  have f: "call_FilterFunc cfg_custom_name w0 = (Inr False, w0)"
    by (simp add: call_FilterFunc_def cfg_custom_name_def cfg_svc_def)
  have n: "spanName cfg_custom_name w0 = (Inr ''CUSTOM NAME'', w0)"
    by (simp add: spanName_def defaultSpanName_def cfg_custom_name_def cfg_svc_def w0_def)
  have e: "handler_entry G0 cfg_custom_name (Request w0) ''CUSTOM NAME'' w0 =
             (RecordingSpan 0, 1, ?entry)"
    by (simp add: handler_entry_def start_span_def install_def WithContext_def SetRequest_def
        the_tracer_def the_propagator_def G0_def cfg_custom_name_def cfg_svc_def
        w0_def w0_entry_def req0_def)
  have h: "h_boom ?entry = (Inr (Some (GoError ''boom'')), ?exit)"
    by (simp add: h_boom_def w0_entry_def w0_def)
  have a: "call_AttributesFunc cfg_custom_name ?exit = (Inr [], ?exit)"
    by (simp add: call_AttributesFunc_def cfg_custom_name_def cfg_svc_def)
  have s: "spanStatus G0 cfg_custom_name (effective_status ?exit) (Some (GoError ''boom'')) =
             Inr (codes_Error, ''OK'')"
    by (simp add: spanStatus_def defaultStatus_def effective_status_def cfg_custom_name_def
        cfg_svc_def G0_def StatusText0_def w0_entry_def w0_def)
  show ?thesis
    unfolding run_finalized [where ?next = h_boom, OF f n e h a refl refl] s
    by (simp add: final_def actions_def effective_status_def cfg_custom_name_def cfg_svc_def
        w0_entry_def w0_def req0_def)
qed

section \<open>The helpers without an active span\<close>

text \<open>
  Inside a traced request the helpers reach the span of the middleware, and on a recording
  span they have an effect.
\<close>

lemma Span_in_traced_request:
  assumes "handler_entry G cfg r name c = (sp, r', c4)"
  shows "Span c4 = sp"
  using assms
  by (cases "the_tracer G cfg")
     (auto simp: handler_entry_def start_span_def install_def WithContext_def SetRequest_def
        Span_def SpanFromContext_def Let_def)

lemma AddAttributes_in_traced_request:
  "rec_ops (spans (AddAttributes [(''k'', StringValue ''v'')] w0_entry) 0) =
     [OpSetAttributes [(''k'', StringValue ''v'')]]"
  by (simp add: AddAttributes_def Span_def SpanFromContext_def w0_entry_def w0_def req0_def
      background_def)

text \<open>
  Claim C9. For every request state whose request context carries no span (a filtered
  request, or no middleware installed), \<^verbatim>\<open>Span\<close> returns the no-op span, which is not
  recording, and \<^verbatim>\<open>AddAttributes\<close> and \<^verbatim>\<open>AddEvent\<close> leave the state as it is; neither
  has a failing branch.
\<close>

theorem C9_no_active_span:
  assumes "ctx_span (req_ctx (requests c (Request c))) = None"
  shows "Span c = NoopSpan
       \<and> \<not> IsRecording (Span c) c
       \<and> AddAttributes attrs c = c
       \<and> AddEvent name attrs c = c"
  using assms by (simp add: Span_def SpanFromContext_def AddAttributes_def AddEvent_def)

theorem C9_no_active_span_witness:
  "ctx_span (req_ctx (requests w0 (Request w0))) = None
   \<and> Span w0 = NoopSpan
   \<and> AddAttributes [(''k'', StringValue ''v'')] w0 = w0
   \<and> AddEvent ''evt'' [] w0 = w0"
proof -
  have n: "ctx_span (req_ctx (requests w0 (Request w0))) = None"
    by (simp add: w0_def req0_def background_def)
  from C9_no_active_span [OF n, of "[(''k'', StringValue ''v'')]" "''evt''"]
       C9_no_active_span [OF n, of "[]" "''evt''"] n
  show ?thesis
    by simp
qed

end
